theory Spec2Isabelle
  imports Complex_Main "HOL-Library.Code_Target_Nat"
begin

section \<open>Text primitives of the JavaScript runtime\<close>

text \<open>
  A JavaScript string is a sequence of UTF-16 code units, and \<open>length\<close>, \<open>substring\<close> and
  the regular expressions of \<^verbatim>\<open>src/lingo.js\<close> (none has the \<open>u\<close> flag) work on code units.
  A code unit is its number, from 0 to 65535; no function below depends on the upper bound.
  \<open>js\<close> turns a literal into the string of its code units.
\<close>

type_synonym code_unit = nat

type_synonym jsstring = "code_unit list"

definition js :: "string \<Rightarrow> jsstring" where
  "js s = map of_char s"

text \<open>\<open>\w\<close> of a regular expression without the \<open>u\<close> and \<open>i\<close> flags: \<open>[A-Za-z0-9_]\<close>.\<close>

definition is_word_char :: "code_unit \<Rightarrow> bool" where
  "is_word_char c =
     ((65 \<le> c \<and> c \<le> 90) \<or> (97 \<le> c \<and> c \<le> 122) \<or> (48 \<le> c \<and> c \<le> 57) \<or> c = 95)"

text \<open>The line terminators LF, CR, U+2028 and U+2029: where \<open>^\<close> matches under the
  \<open>m\<close> flag, and what \<open>.\<close> does not match.\<close>

definition is_line_terminator :: "code_unit \<Rightarrow> bool" where
  "is_line_terminator c = (c = 10 \<or> c = 13 \<or> c = 8232 \<or> c = 8233)"

text \<open>
  What \<open>String.prototype.trim\<close> strips: the white space TAB, VT, FF, U+FEFF and the space
  separators (U+0020, U+00A0, U+1680, U+2000 to U+200A, U+202F, U+205F, U+3000), and the
  four line terminators.
\<close>

definition is_white_space :: "code_unit \<Rightarrow> bool" where
  "is_white_space c =
     (c \<in> {9, 11, 12, 32, 160, 5760, 8239, 8287, 12288, 65279}
      \<or> (8192 \<le> c \<and> c \<le> 8202) \<or> is_line_terminator c)"

definition trim :: "jsstring \<Rightarrow> jsstring" where
  "trim s = rev (dropWhile is_white_space (rev (dropWhile is_white_space s)))"

text \<open>
  \<open>String.prototype.toLowerCase\<close>. On a string of code units below 256 it works unit by
  unit: A-Z, and the Latin-1 capitals U+00C0 to U+00DE without the multiplication sign
  U+00D7, move up by 32 and every other unit stays. For a string with a unit from 256 on
  the result comes from the case tables of Unicode, which are not part of the program: they
  are the parameter \<open>tables\<close>, any function from strings to strings.
\<close>

type_synonym case_tables = "jsstring \<Rightarrow> jsstring"

definition lower_latin1 :: "code_unit \<Rightarrow> code_unit" where
  "lower_latin1 c =
     (if (65 \<le> c \<and> c \<le> 90) \<or> (192 \<le> c \<and> c \<le> 222 \<and> c \<noteq> 215) then c + 32 else c)"

definition toLowerCase :: "case_tables \<Rightarrow> jsstring \<Rightarrow> jsstring" where
  "toLowerCase tables s =
     (if list_all (\<lambda>c. c < 256) s then map lower_latin1 s else tables s)"

text \<open>A stand-in for the tables where the text is Latin-1 and they are not consulted.\<close>

definition no_tables :: case_tables where
  "no_tables s = s"

text \<open>\<open>s.substring(0, n)\<close> for \<open>n \<ge> 0\<close>.\<close>

definition substring0 :: "jsstring \<Rightarrow> nat \<Rightarrow> jsstring" where
  "substring0 s n = take n s"

definition startsWith :: "jsstring \<Rightarrow> jsstring \<Rightarrow> bool" where
  "startsWith s p = (take (length p) s = p)"

text \<open>\<open>s.includes(p)\<close>: \<open>p\<close> occurs in \<open>s\<close> as a contiguous run.\<close>

fun includesStr :: "jsstring \<Rightarrow> jsstring \<Rightarrow> bool" where
  "includesStr [] p = (p = [])"
| "includesStr (c # cs) p = (startsWith (c # cs) p \<or> includesStr cs p)"

subsection \<open>The regular expressions of the classifier\<close>

text \<open>
  Every keyword test has the shape \<open>/\b(w1|w2|...)\b/\<close> and only the truth value of
  \<open>match\<close> is used, so the test succeeds when at some position a word boundary, one
  of the alternatives and again a word boundary follow each other. \<open>\b\<close> holds between
  two code units of which exactly one is a word character; the ends of the string count
  as non-word. The scan carries the code unit before the position (\<open>None\<close> at the start).
\<close>

definition word_before :: "code_unit option \<Rightarrow> bool" where
  "word_before p = (case p of None \<Rightarrow> False | Some c \<Rightarrow> is_word_char c)"

definition word_after :: "jsstring \<Rightarrow> bool" where
  "word_after s = (case s of [] \<Rightarrow> False | c # _ \<Rightarrow> is_word_char c)"

definition boundary :: "code_unit option \<Rightarrow> jsstring \<Rightarrow> bool" where
  "boundary p s = (word_before p \<noteq> word_after s)"

definition alt_here :: "code_unit option \<Rightarrow> jsstring \<Rightarrow> jsstring \<Rightarrow> bool" where
  "alt_here p s w =
     (startsWith s w \<and>
      boundary (if w = [] then p else Some (last w)) (drop (length w) s))"

definition match_here :: "jsstring list \<Rightarrow> code_unit option \<Rightarrow> jsstring \<Rightarrow> bool" where
  "match_here ws p s = (boundary p s \<and> list_ex (alt_here p s) ws)"

fun scan :: "jsstring list \<Rightarrow> code_unit option \<Rightarrow> jsstring \<Rightarrow> bool" where
  "scan ws p [] = match_here ws p []"
| "scan ws p (c # cs) = (match_here ws p (c # cs) \<or> scan ws (Some c) cs)"

definition word_match :: "jsstring \<Rightarrow> jsstring list \<Rightarrow> bool" where
  "word_match s ws = scan ws None s"

text \<open>
  \<open>(diff.match(/^\+[^+]/gm) || []).length\<close> and its twin for \<open>-\<close>: the number of matches
  found from left to right. A match needs a line start (the start of the text or the place
  after a line terminator), the sign, and one more code unit of any kind but the sign
  (a line terminator is allowed); the search goes on behind the two code units of a match.
\<close>

fun count_sign :: "code_unit \<Rightarrow> bool \<Rightarrow> jsstring \<Rightarrow> nat" where
  "count_sign g at_start (x # y # r) =
     (if at_start \<and> x = g \<and> y \<noteq> g
      then Suc (count_sign g (is_line_terminator y) r)
      else count_sign g (is_line_terminator x) (y # r))"
| "count_sign g at_start r = 0"

section \<open>The heuristic classifier: \<^verbatim>\<open>detectCommitType\<close>\<close>

definition feat_words :: "jsstring list" where
  "feat_words = map js [''add'', ''new'', ''create'', ''added'', ''created'']"

definition fix_words :: "jsstring list" where
  "fix_words = map js [''fix'', ''bug'', ''resolve'', ''patch'', ''correct'']"

definition refactor_words :: "jsstring list" where
  "refactor_words = map js [''refactor'', ''restructure'', ''rewrite'', ''cleanup'']"

definition docs_words :: "jsstring list" where
  "docs_words = map js [''doc'', ''readme'', ''comment'', ''documentation'']"

definition test_words :: "jsstring list" where
  "test_words = map js [''test'', ''spec'', ''testing'']"

definition perf_words :: "jsstring list" where
  "perf_words = map js [''perf'', ''performance'', ''optimize'', ''speed'']"

definition style_words :: "jsstring list" where
  "style_words = map js [''style'', ''format'', ''lint'']"

text \<open>The code units of \<open>+\<close> and \<open>-\<close>.\<close>

definition plus_sign :: code_unit where
  "plus_sign = 43"

definition minus_sign :: code_unit where
  "minus_sign = 45"

definition additions :: "jsstring \<Rightarrow> nat" where
  "additions diff = count_sign plus_sign True diff"

definition deletions :: "jsstring \<Rightarrow> nat" where
  "deletions diff = count_sign minus_sign True diff"

definition detectCommitType :: "case_tables \<Rightarrow> jsstring \<Rightarrow> jsstring \<Rightarrow> jsstring" where
  "detectCommitType tables message diff =
     (let lowerMessage = toLowerCase tables message in
      if word_match lowerMessage feat_words then js ''feat''
      else if word_match lowerMessage fix_words then js ''fix''
      else if word_match lowerMessage refactor_words then js ''refactor''
      else if word_match lowerMessage docs_words then js ''docs''
      else if word_match lowerMessage test_words then js ''test''
      else if word_match lowerMessage perf_words then js ''perf''
      else if word_match lowerMessage style_words then js ''style''
      else if includesStr diff (js ''test/'') \<or> includesStr diff (js ''.test.'')
              \<or> includesStr diff (js ''.spec.'')
        then js ''test''
      else if includesStr diff (js ''README'') \<or> includesStr diff (js ''.md'') then js ''docs''
      else if additions diff > deletions diff * 2 then js ''feat''
      else js ''fix'')"

section \<open>The fallback: \<^verbatim>\<open>generateBodyFromDiff\<close> and \<^verbatim>\<open>fallbackCommitGeneration\<close>\<close>

text \<open>\<open>diff.split('\n')\<close>: the pieces between line feeds; the empty text has one empty piece.\<close>

fun split_lines :: "jsstring \<Rightarrow> jsstring list" where
  "split_lines [] = [[]]"
| "split_lines (c # cs) =
     (if c = 10 then [] # split_lines cs
      else (case split_lines cs of [] \<Rightarrow> [[c]] | l # ls \<Rightarrow> (c # l) # ls))"

text \<open>\<open>line.match(/b\/(.*)/)\<close>: \<open>None\<close> is \<open>null\<close>; otherwise group 1, the text behind the
  leftmost \<open>b/\<close> up to the end of the line or the first line terminator.\<close>

fun post_image :: "jsstring \<Rightarrow> jsstring option" where
  "post_image [] = None"
| "post_image (c # cs) =
     (if startsWith (c # cs) (js ''b/'')
      then Some (takeWhile (\<lambda>x. \<not> is_line_terminator x) (drop 2 (c # cs)))
      else post_image cs)"

text \<open>The loop over the lines, with \<open>filesChanged\<close> as the accumulator that \<open>push\<close> extends.\<close>

fun collect_files :: "jsstring list \<Rightarrow> jsstring list \<Rightarrow> jsstring list" where
  "collect_files filesChanged [] = filesChanged"
| "collect_files filesChanged (line # lines) =
     (if startsWith line (js ''diff --git'')
      then (case post_image line of
              None \<Rightarrow> collect_files filesChanged lines
            | Some f \<Rightarrow> collect_files (filesChanged @ [f]) lines)
      else collect_files filesChanged lines)"

text \<open>\<open>xs.join(sep)\<close>.\<close>

fun join :: "jsstring \<Rightarrow> jsstring list \<Rightarrow> jsstring" where
  "join sep [] = []"
| "join sep [x] = x"
| "join sep (x # y # r) = x @ sep @ join sep (y # r)"

definition generateBodyFromDiff :: "jsstring \<Rightarrow> jsstring" where
  "generateBodyFromDiff diff =
     (let filesChanged = collect_files [] (split_lines diff) in
      case filesChanged of
        [] \<Rightarrow> js ''Update implementation''
      | [f] \<Rightarrow> js ''Update '' @ f
      | _ \<Rightarrow> js ''Update multiple files:'' @ [10]
             @ join [10] (map (\<lambda>f. js ''- '' @ f) (take 5 filesChanged)))"

text \<open>The object \<open>{ title, body }\<close>. The fallback fills it with strings; the remote path
  fills it with whatever values the response carries.\<close>

record 'v commit =
  title :: 'v
  body :: 'v

definition fallbackCommitGeneration :: "case_tables \<Rightarrow> jsstring \<Rightarrow> jsstring \<Rightarrow> jsstring commit"
  where
  "fallbackCommitGeneration tables rawMessage diff =
     (let cleanMessage = trim rawMessage;
          type = detectCommitType tables cleanMessage diff
      in \<lparr> title = type @ js '': '' @ substring0 (toLowerCase tables cleanMessage) 60,
           body = generateBodyFromDiff diff \<rparr>)"

section \<open>JavaScript values, errors and promises\<close>

text \<open>A number read by \<open>JSON.parse\<close>: a finite double, or an infinity when the literal
  overflows (the flag is the sign). \<open>NaN\<close> has no JSON literal.\<close>

datatype jsnum = Finite real | Infinity bool

datatype jsval =
    JUndefined
  | JNull
  | JBool bool
  | JNum jsnum
  | JStr jsstring
  | JArr "jsval list"
  | JObj "(jsstring \<times> jsval) list"

text \<open>What \<open>!v\<close> negates.\<close>

fun truthy :: "jsval \<Rightarrow> bool" where
  "truthy JUndefined = False"
| "truthy JNull = False"
| "truthy (JBool b) = b"
| "truthy (JNum n) = (n \<noteq> Finite 0)"
| "truthy (JStr s) = (s \<noteq> [])"
| "truthy (JArr xs) = True"
| "truthy (JObj kvs) = True"

datatype js_error = JsError (err_name: jsstring) (err_message: jsstring)

text \<open>
  A settled promise, or the outcome of a block that may throw: \<open>Inl\<close> is the rejection or
  the thrown error. An awaited promise that may stay pending for ever is an option of it,
  with \<open>None\<close> for "never settles".
\<close>

type_synonym 'a promise = "js_error + 'a"

text \<open>
  \<open>data.title\<close> and \<open>data.body\<close>: reading a property of \<open>null\<close> or \<open>undefined\<close> throws a
  TypeError; an object built by \<open>JSON.parse\<close> holds its members as own properties, the last
  of several members with one name winning; primitives and arrays have neither property.
\<close>

fun get_member :: "jsval \<Rightarrow> jsstring \<Rightarrow> jsval promise" where
  "get_member JNull k =
     Inl (JsError (js ''TypeError'')
            (js ''Cannot read properties of null (reading '' @ [39] @ k @ [39] @ js '')''))"
| "get_member JUndefined k =
     Inl (JsError (js ''TypeError'')
            (js ''Cannot read properties of undefined (reading '' @ [39] @ k @ [39] @ js '')''))"
| "get_member (JObj kvs) k =
     Inr (case map_of (rev kvs) k of None \<Rightarrow> JUndefined | Some v \<Rightarrow> v)"
| "get_member v k = Inr JUndefined"

function show_nat :: "nat \<Rightarrow> jsstring" where
  "show_nat n = (if n < 10 then [48 + n] else show_nat (n div 10) @ [48 + n mod 10])"
  by pat_completeness auto
termination
  by (relation "measure id") auto

section \<open>The orchestrator: \<^verbatim>\<open>generateConventionalCommit\<close>\<close>

text \<open>The two environment variables; \<open>None\<close> is an unset variable.\<close>

record config =
  apiUrl :: "jsstring option"
  apiKey :: "jsstring option"

text \<open>\<open>!v\<close> for a variable of the environment: unset or empty.\<close>

definition unset :: "jsstring option \<Rightarrow> bool" where
  "unset v = (case v of None \<Rightarrow> True | Some s \<Rightarrow> s = [])"

definition systemPrompt :: jsstring where
  "systemPrompt =
     js ''Detect the source language. It may be a mixed colloquial language like Hinglish (e.g., ''
     @ [39] @ js ''isse bara number ka issue fix ho jata hai'' @ [39]
     @ js ''). Translate the intent to standard English. Analyze the provided git diff. ''
     @ js ''Output a standard Conventional Commit with:'' @ [10]
     @ js ''- a short, lowercase type (feat, fix, refactor, docs, chore, test, perf)'' @ [10]
     @ js ''- a concise title under 72 characters'' @ [10]
     @ js ''- a short body explaining what changed and why.'' @ [10]
     @ js ''Return JSON:'' @ [10]
     @ js ''{'' @ [10]
     @ js ''  title: string,'' @ [10]
     @ js ''  body: string'' @ [10]
     @ js ''}''"

record payload =
  p_systemPrompt :: jsstring
  p_rawMessage :: jsstring
  p_diff :: jsstring

text \<open>The one POST request; \<open>req_body\<close> is the object that \<open>JSON.stringify\<close> serialises.\<close>

record request =
  url :: jsstring
  content_type :: jsstring
  authorization :: jsstring
  req_body :: payload

text \<open>
  What the network answers to that request. The 15 second timer is armed while \<open>fetch\<close>
  is awaited, so \<open>fetch\<close> settles: \<open>Rejected\<close> is its rejection, with an \<open>AbortError\<close>
  when the timer aborts it and with another error when the transport fails.
  \<open>Responded\<close> is a response with its status and the fate of \<open>response.json()\<close>, which is
  awaited after \<open>clearTimeout\<close>, with no timer left: \<open>None\<close> when the body never arrives
  and the promise stays pending, an error for a body that is not JSON, the parsed value
  otherwise.
\<close>

datatype fetch_outcome =
    Rejected js_error
  | Responded nat "jsval promise option"

text \<open>\<open>response.ok\<close>.\<close>

definition ok :: "nat \<Rightarrow> bool" where
  "ok st = (200 \<le> st \<and> st \<le> 299)"

datatype event = Warn jsstring | Fetch request

text \<open>The run of the function: what its promise settles to, \<open>None\<close> when it stays pending,
  and the warnings and network calls it made, in order.\<close>

record generation =
  settled :: "jsval commit promise option"
  trace :: "event list"

text \<open>The fallback's object as JavaScript values.\<close>

definition as_js :: "jsstring commit \<Rightarrow> jsval commit" where
  "as_js c = \<lparr> title = JStr (title c), body = JStr (body c) \<rparr>"

text \<open>The statements of the \<open>try\<close> block behind \<open>fetch\<close>: \<open>Some (Inl e)\<close> is what they
  throw, \<open>None\<close> an await that never returns.\<close>

definition try_block :: "fetch_outcome \<Rightarrow> jsval commit promise option" where
  "try_block net =
     (case net of
        Rejected e \<Rightarrow> Some (Inl e)
      | Responded st parsed \<Rightarrow>
          if \<not> ok st
          then Some (Inl (JsError (js ''Error'') (js ''API returned status '' @ show_nat st)))
          else (case parsed of
                  None \<Rightarrow> None
                | Some (Inl e) \<Rightarrow> Some (Inl e)
                | Some (Inr data) \<Rightarrow>
                    (case get_member data (js ''title'') of
                       Inl e \<Rightarrow> Some (Inl e)
                     | Inr t \<Rightarrow>
                         if \<not> truthy t
                         then Some (Inl (JsError (js ''Error'') (js ''Invalid API response format'')))
                         else (case get_member data (js ''body'') of
                                 Inl e \<Rightarrow> Some (Inl e)
                               | Inr b \<Rightarrow>
                                   if \<not> truthy b
                                   then Some (Inl (JsError (js ''Error'')
                                                     (js ''Invalid API response format'')))
                                   else Some (Inr \<lparr> title = t, body = b \<rparr>)))))"

text \<open>The \<open>catch\<close> block's warning.\<close>

definition catch_warning :: "js_error \<Rightarrow> jsstring" where
  "catch_warning e =
     (if err_name e = js ''AbortError''
      then js ''Warning: API request timed out. Using fallback.''
      else js ''Warning: API error ('' @ err_message e @ js ''). Using fallback.'')"

definition generateConventionalCommit ::
    "case_tables \<Rightarrow> config \<Rightarrow> fetch_outcome \<Rightarrow> jsstring \<Rightarrow> jsstring \<Rightarrow> generation" where
  "generateConventionalCommit tables env net rawMessage diff =
     (if unset (apiUrl env) \<or> unset (apiKey env)
      then \<lparr> settled = Some (Inr (as_js (fallbackCommitGeneration tables rawMessage diff))),
             trace = [Warn (js ''Warning: LINGO_API_URL or LINGO_API_KEY not set. Using fallback.'')] \<rparr>
      else
        let req = \<lparr> url = the (apiUrl env),
                    content_type = js ''application/json'',
                    authorization = js ''Bearer '' @ the (apiKey env),
                    req_body = \<lparr> p_systemPrompt = systemPrompt,
                                 p_rawMessage = rawMessage,
                                 p_diff = substring0 diff 4000 \<rparr> \<rparr>
        in (case try_block net of
              None \<Rightarrow> \<lparr> settled = None, trace = [Fetch req] \<rparr>
            | Some (Inr c) \<Rightarrow> \<lparr> settled = Some (Inr c), trace = [Fetch req] \<rparr>
            | Some (Inl e) \<Rightarrow>
                \<lparr> settled = Some (Inr (as_js (fallbackCommitGeneration tables rawMessage diff))),
                  trace = [Fetch req, Warn (catch_warning e)] \<rparr>))"

section \<open>The confirmation flow of the \<^verbatim>\<open>commit\<close> action\<close>

text \<open>The options of \<open>clack.select\<close>; its answer is \<open>None\<close> when the prompt is cancelled
  (\<open>clack.isCancel\<close>).\<close>

datatype action = Accept | Edit | Cancel

text \<open>The options object of \<open>clack.text\<close>. \<open>validate\<close> returns \<open>None\<close> for
  \<open>undefined\<close> and a message otherwise.\<close>

record text_options =
  message :: jsstring
  placeholder :: jsval
  defaultValue :: jsval
  validate :: "(jsstring \<Rightarrow> jsstring option) option"

definition title_validate :: "jsstring \<Rightarrow> jsstring option" where
  "title_validate v =
     (if v = [] then Some (js ''Title is required'')
      else if length v > 72 then Some (js ''Title should be under 72 characters'')
      else None)"

definition title_prompt :: "jsval commit \<Rightarrow> text_options" where
  "title_prompt result =
     \<lparr> message = js ''Commit title:'', placeholder = title result,
       defaultValue = title result, validate = Some title_validate \<rparr>"

definition body_prompt :: "jsval commit \<Rightarrow> text_options" where
  "body_prompt result =
     \<lparr> message = js ''Commit body:'', placeholder = body result,
       defaultValue = body result, validate = None \<rparr>"

text \<open>What awaiting a text prompt gives: it throws, it yields the cancel symbol, or it
  yields a value.\<close>

datatype prompt_result = Threw js_error | Cancelled | Answered jsval

definition is_text :: "jsval \<Rightarrow> bool" where
  "is_text v = (case v of JStr s \<Rightarrow> True | _ \<Rightarrow> False)"

text \<open>
  The text prompt of the prompt library for options of the documented types, where
  \<open>placeholder\<close> and \<open>defaultValue\<close> are strings: each Enter submits the line typed so far;
  when \<open>validate\<close> returns a message the prompt shows it and stays open, otherwise the
  prompt closes with the line, or with \<open>defaultValue\<close> for an empty line. The user is the
  list of lines submitted in turn and cancels when it is used up.
\<close>

definition problem :: "text_options \<Rightarrow> jsstring \<Rightarrow> jsstring option" where
  "problem opts v = (case validate opts of None \<Rightarrow> None | Some f \<Rightarrow> f v)"

fun typed_prompt :: "text_options \<Rightarrow> jsstring list \<Rightarrow> prompt_result" where
  "typed_prompt opts [] = Cancelled"
| "typed_prompt opts (v # later) =
     (case problem opts v of
        Some msg \<Rightarrow> typed_prompt opts later
      | None \<Rightarrow> Answered (if v = [] then defaultValue opts else JStr v))"

text \<open>
  With a \<open>placeholder\<close> or \<open>defaultValue\<close> that is not a string the call is outside the
  documented types, and what the library does then (it may throw while it renders) is not
  fixed by the program: it is the parameter \<open>lib\<close>, any behaviour at all.
\<close>

type_synonym untyped_prompt = "text_options \<Rightarrow> jsstring list \<Rightarrow> prompt_result"

definition text_prompt :: "untyped_prompt \<Rightarrow> text_options \<Rightarrow> jsstring list \<Rightarrow> prompt_result"
  where
  "text_prompt lib opts entered =
     (if is_text (placeholder opts) \<and> is_text (defaultValue opts)
      then typed_prompt opts entered else lib opts entered)"

text \<open>One such behaviour: the prompt throws a TypeError.\<close>

definition throwing_prompt :: untyped_prompt where
  "throwing_prompt opts entered =
     Threw (JsError (js ''TypeError'') (js ''opts.placeholder.slice is not a function''))"

record user =
  choice :: "action option"
  title_lines :: "jsstring list"
  body_lines :: "jsstring list"

text \<open>What the flow does to the outside: log lines, the call of \<open>commitWithMessage\<close>
  (the only caller of \<open>git.commit\<close>) and \<open>process.exit\<close>, which ends the run.\<close>

datatype effect =
    LogInfo jsstring
  | LogSuccess jsstring
  | LogError jsstring
  | Commit jsval jsval
  | Exit nat

definition cancelled :: "effect list" where
  "cancelled = [LogInfo (js ''Commit cancelled''), Exit 0]"

text \<open>The outer \<open>catch\<close>: it logs the message of what was thrown and exits with 1.\<close>

definition caught :: "jsstring \<Rightarrow> effect list" where
  "caught msg = [LogError (js ''Error: '' @ msg), Exit 1]"

text \<open>\<open>commitWithMessage\<close> and what follows it: \<open>git_failure\<close> is the message of the error
  that \<open>git.commit\<close> rejects with, if it does.\<close>

definition commit_step :: "jsstring option \<Rightarrow> jsval \<Rightarrow> jsval \<Rightarrow> effect list" where
  "commit_step git_failure finalTitle finalBody =
     Commit finalTitle finalBody #
       (case git_failure of
          None \<Rightarrow> [LogSuccess (js ''Commit created successfully!'')]
        | Some msg \<Rightarrow> caught (js ''Failed to create commit: '' @ msg))"

text \<open>The action handler from the select prompt on.\<close>

definition confirm ::
    "untyped_prompt \<Rightarrow> jsval commit \<Rightarrow> user \<Rightarrow> jsstring option \<Rightarrow> effect list" where
  "confirm lib result u git_failure =
     (case choice u of
        None \<Rightarrow> cancelled
      | Some Cancel \<Rightarrow> cancelled
      | Some a \<Rightarrow>
          if a = Edit
          then (case text_prompt lib (title_prompt result) (title_lines u) of
                  Threw e \<Rightarrow> caught (err_message e)
                | Cancelled \<Rightarrow> cancelled
                | Answered finalTitle \<Rightarrow>
                    (case text_prompt lib (body_prompt result) (body_lines u) of
                       Threw e \<Rightarrow> caught (err_message e)
                     | Cancelled \<Rightarrow> cancelled
                     | Answered finalBody \<Rightarrow> commit_step git_failure finalTitle finalBody))
          else commit_step git_failure (title result) (body result))"

text \<open>The number of calls of the commit operation in a run.\<close>

definition is_commit :: "effect \<Rightarrow> bool" where
  "is_commit e = (case e of Commit t b \<Rightarrow> True | _ \<Rightarrow> False)"

definition commits :: "effect list \<Rightarrow> nat" where
  "commits run = length (filter is_commit run)"

definition answered :: "prompt_result \<Rightarrow> bool" where
  "answered r = (case r of Answered v \<Rightarrow> True | _ \<Rightarrow> False)"

section \<open>Notions used to state the properties\<close>

text \<open>Both environment variables are set.\<close>

definition configured :: "config \<Rightarrow> bool" where
  "configured env = (\<not> unset (apiUrl env) \<and> \<not> unset (apiKey env))"

text \<open>A member of the response that can be read and is truthy.\<close>

definition member_ok :: "jsval \<Rightarrow> jsstring \<Rightarrow> bool" where
  "member_ok data k = (case get_member data k of Inl e \<Rightarrow> False | Inr v \<Rightarrow> truthy v)"







text \<open>
  The keyword stage as an ordered table: the categories in the order of the \<open>if\<close>
  statements of \<^verbatim>\<open>detectCommitType\<close>, each with the alternatives of its pattern, and the
  type of the first category whose pattern matches the lower-cased message.
\<close>

definition priority_table :: "(jsstring \<times> jsstring list) list" where
  "priority_table =
     [(js ''feat'', feat_words), (js ''fix'', fix_words), (js ''refactor'', refactor_words),
      (js ''docs'', docs_words), (js ''test'', test_words), (js ''perf'', perf_words),
      (js ''style'', style_words)]"

definition first_keyword :: "case_tables \<Rightarrow> jsstring \<Rightarrow> jsstring option" where
  "first_keyword tables msg =
     map_option fst
       (find (\<lambda>row. word_match (toLowerCase tables msg) (snd row)) priority_table)"

text \<open>A test path or a markdown signal in the diff.\<close>

definition path_signal :: "jsstring \<Rightarrow> bool" where
  "path_signal d =
     (includesStr d (js ''test/'') \<or> includesStr d (js ''.test.'') \<or> includesStr d (js ''.spec.'')
      \<or> includesStr d (js ''README'') \<or> includesStr d (js ''.md''))"

text \<open>A line that begins with a single sign: the sign, and then the end of the line or a
  code unit other than the sign. The \<open>+++\<close> and \<open>---\<close> headers are not such lines.\<close>

definition single_sign :: "code_unit \<Rightarrow> jsstring \<Rightarrow> bool" where
  "single_sign g l =
     (case l of [] \<Rightarrow> False | x # r \<Rightarrow> x = g \<and> (case r of [] \<Rightarrow> True | y # _ \<Rightarrow> y \<noteq> g))"

text \<open>The count in the words of the claim: the lines of the diff, as \<open>split('\n')\<close> of the
  same file cuts them, that begin with a single sign.\<close>

definition spec_count :: "code_unit \<Rightarrow> jsstring \<Rightarrow> nat" where
  "spec_count g d = length (filter (single_sign g) (split_lines d))"

text \<open>The lines of a text as the regular expression sees them: cut at every line
  terminator, LF, CR, U+2028 or U+2029.\<close>

fun regex_lines :: "jsstring \<Rightarrow> jsstring list" where
  "regex_lines [] = [[]]"
| "regex_lines (c # cs) =
     (if is_line_terminator c then [] # regex_lines cs
      else (case regex_lines cs of [] \<Rightarrow> [[c]] | l # ls \<Rightarrow> (c # l) # ls))"

definition line_count :: "code_unit \<Rightarrow> jsstring \<Rightarrow> nat" where
  "line_count g d = length (filter (single_sign g) (regex_lines d))"

text \<open>The same count without a last line that is the sign alone, with nothing behind it.\<close>

definition counted :: "code_unit \<Rightarrow> jsstring \<Rightarrow> nat" where
  "counted g d = line_count g d - (if last (regex_lines d) = [g] then 1 else 0)"

text \<open>The count of \<^const>\<open>counted\<close>, line by line.\<close>

fun count_lines :: "code_unit \<Rightarrow> jsstring list \<Rightarrow> nat" where
  "count_lines g [] = 0"
| "count_lines g [l] = (if single_sign g l \<and> l \<noteq> [g] then 1 else 0)"
| "count_lines g (l # k # ls) = (if single_sign g l then 1 else 0) + count_lines g (k # ls)"

section \<open>Properties of the classifier's output\<close>

lemma length_js: "length (js s) = length s"
  by (simp add: js_def)

lemma detectCommitType_cases:
  "detectCommitType tb msg d \<in>
     {js ''feat'', js ''fix'', js ''refactor'', js ''docs'', js ''test'', js ''perf'', js ''style''}"
  unfolding detectCommitType_def Let_def by simp

lemma detectCommitType_length: "length (detectCommitType tb msg d) \<le> 8"
  using detectCommitType_cases [of tb msg d] by (auto simp: length_js)

lemma detectCommitType_not_chore: "detectCommitType tb msg d \<noteq> js ''chore''"
  using detectCommitType_cases [of tb msg d] by (auto simp: js_def)

lemma generateBodyFromDiff_nonempty: "generateBodyFromDiff d \<noteq> []"
  unfolding generateBodyFromDiff_def Let_def by (simp add: js_def split: list.splits)

lemma fallback_title:
  "title (fallbackCommitGeneration tb rawMessage d)
     = detectCommitType tb (trim rawMessage) d @ js '': ''
       @ substring0 (toLowerCase tb (trim rawMessage)) 60"
  by (simp add: fallbackCommitGeneration_def Let_def)

lemma fallback_body:
  "body (fallbackCommitGeneration tb rawMessage d) = generateBodyFromDiff d"
  by (simp add: fallbackCommitGeneration_def Let_def)

text \<open>
  C2. For every message and every diff the fallback returns an object (it has no failing
  branch) whose type is one of the eight conventional types, whose title is that type,
  a colon, a space and at most 60 code units of the message, hence non-empty and at most
  72 code units long, and whose body is a string, which is never empty.
\<close>

theorem fallback_always_valid:
  "detectCommitType tb (trim rawMessage) d
     \<in> {js ''feat'', js ''fix'', js ''refactor'', js ''docs'', js ''chore'', js ''test'',
        js ''perf'', js ''style''}
   \<and> title (fallbackCommitGeneration tb rawMessage d)
       = detectCommitType tb (trim rawMessage) d @ js '': ''
         @ substring0 (toLowerCase tb (trim rawMessage)) 60
   \<and> title (fallbackCommitGeneration tb rawMessage d) \<noteq> []
   \<and> length (title (fallbackCommitGeneration tb rawMessage d)) \<le> 72
   \<and> body (fallbackCommitGeneration tb rawMessage d) = generateBodyFromDiff d
   \<and> body (fallbackCommitGeneration tb rawMessage d) \<noteq> []"
proof -
  let ?ty = "detectCommitType tb (trim rawMessage) d"
  let ?c = "fallbackCommitGeneration tb rawMessage d"
  have ty: "?ty \<in> {js ''feat'', js ''fix'', js ''refactor'', js ''docs'', js ''test'',
                    js ''perf'', js ''style''}"
    by (rule detectCommitType_cases)
  have len: "length ?ty \<le> 8"
    by (rule detectCommitType_length)
  have cut: "length (substring0 (toLowerCase tb (trim rawMessage)) 60) \<le> 60"
    by (simp add: substring0_def)
  note t = fallback_title [of tb rawMessage d]
  have "length (title ?c) \<le> 72"
    using len cut unfolding t by (simp add: length_js)
  moreover have "title ?c \<noteq> []"
    unfolding t by (simp add: js_def)
  moreover have
    "?ty \<in> {js ''feat'', js ''fix'', js ''refactor'', js ''docs'', js ''chore'', js ''test'',
             js ''perf'', js ''style''}"
    using ty by blast
  ultimately show ?thesis
    using t fallback_body [of tb rawMessage d] generateBodyFromDiff_nonempty [of d] by simp
qed

theorem fallback_always_valid_witness:
  "title (fallbackCommitGeneration no_tables (js ''  Added NEW dashboard '') (js ''+x''))
     = js ''feat: added new dashboard''
   \<and> length (title (fallbackCommitGeneration no_tables (js ''  Added NEW dashboard '')
        (js ''+x''))) \<le> 72
   \<and> body (fallbackCommitGeneration no_tables (js ''  Added NEW dashboard '') (js ''+x''))
     = js ''Update implementation''"
proof -
  have a: "title (fallbackCommitGeneration no_tables (js ''  Added NEW dashboard '') (js ''+x''))
          = js ''feat: added new dashboard''"
    by code_simp
  have b: "generateBodyFromDiff (js ''+x'') = js ''Update implementation''"
    by code_simp
  note h = fallback_always_valid [of no_tables "js ''  Added NEW dashboard ''" "js ''+x''"]
  from h have l:
    "length (title (fallbackCommitGeneration no_tables (js ''  Added NEW dashboard '')
        (js ''+x''))) \<le> 72"
    by (elim conjE)
  from h have
    "body (fallbackCommitGeneration no_tables (js ''  Added NEW dashboard '') (js ''+x''))
       = generateBodyFromDiff (js ''+x'')"
    by (elim conjE)
  from this b have c:
    "body (fallbackCommitGeneration no_tables (js ''  Added NEW dashboard '') (js ''+x''))
       = js ''Update implementation''"
    by (rule trans)
  show ?thesis
    by (intro conjI a l c)
qed

text \<open>
  C10. The type that the classifier returns is always one of feat, fix, refactor, docs,
  test, perf and style, and never chore; so the fallback's title starts with one of these
  seven types and never with \<open>chore: \<close>.
\<close>

theorem classifier_never_chore:
  "detectCommitType tb msg d
     \<in> {js ''feat'', js ''fix'', js ''refactor'', js ''docs'', js ''test'', js ''perf'',
        js ''style''}
   \<and> detectCommitType tb msg d \<noteq> js ''chore''
   \<and> (\<exists>ty \<in> {js ''feat'', js ''fix'', js ''refactor'', js ''docs'', js ''test'', js ''perf'',
               js ''style''}.
         title (fallbackCommitGeneration tb rawMessage d)
           = ty @ js '': '' @ substring0 (toLowerCase tb (trim rawMessage)) 60)
   \<and> take 7 (title (fallbackCommitGeneration tb rawMessage d)) \<noteq> js ''chore: ''"
proof -
  note t = fallback_title [of tb rawMessage d]
  have "take 7 (title (fallbackCommitGeneration tb rawMessage d)) \<noteq> js ''chore: ''"
    using detectCommitType_cases [of tb "trim rawMessage" d] unfolding t
    by (auto simp: js_def)
  then show ?thesis
    using detectCommitType_cases [of tb msg d] detectCommitType_cases [of tb "trim rawMessage" d]
      detectCommitType_not_chore [of tb msg d] t
    by blast
qed

theorem classifier_never_chore_witness:
  "detectCommitType no_tables (js ''chore: bump the versions'') [] = js ''fix''
   \<and> detectCommitType no_tables (js ''chore: bump the versions'') [] \<noteq> js ''chore''
   \<and> take 7 (title (fallbackCommitGeneration no_tables (js ''chore: bump the versions'') []))
       \<noteq> js ''chore: ''"
proof -
  have a: "detectCommitType no_tables (js ''chore: bump the versions'') [] = js ''fix''"
    by code_simp
  note h = classifier_never_chore
      [of no_tables "js ''chore: bump the versions''" "[]" "js ''chore: bump the versions''"]
  from h have b: "detectCommitType no_tables (js ''chore: bump the versions'') [] \<noteq> js ''chore''"
    by (elim conjE)
  from h have c:
    "take 7 (title (fallbackCommitGeneration no_tables (js ''chore: bump the versions'') []))
       \<noteq> js ''chore: ''"
    by (elim conjE)
  show ?thesis
    by (intro conjI a b c)
qed

section \<open>Properties of the orchestrator\<close>

lemma try_block_accept:
  assumes "ok st" and "get_member data (js ''title'') = Inr t" and "truthy t"
    and "get_member data (js ''body'') = Inr b" and "truthy b"
  shows "try_block (Responded st (Some (Inr data))) = Some (Inr \<lparr> title = t, body = b \<rparr>)"
  using assms by (simp add: try_block_def)




lemma generate_settled:
  "settled (generateConventionalCommit tb env net rawMessage d) =
     (if configured env
      then (case try_block net of
              None \<Rightarrow> None
            | Some (Inr c) \<Rightarrow> Some (Inr c)
            | Some (Inl e) \<Rightarrow> Some (Inr (as_js (fallbackCommitGeneration tb rawMessage d))))
      else Some (Inr (as_js (fallbackCommitGeneration tb rawMessage d))))"
  by (simp add: generateConventionalCommit_def configured_def Let_def
        split: sum.splits option.splits)


lemma fallback_title_short:
  "length (title (fallbackCommitGeneration tb rawMessage d)) \<le> 70"
proof -
  have "length (detectCommitType tb (trim rawMessage) d) \<le> 8"
    by (rule detectCommitType_length)
  moreover have "length (substring0 (toLowerCase tb (trim rawMessage)) 60) \<le> 60"
    by (simp add: substring0_def)
  ultimately show ?thesis
    unfolding fallback_title by (simp add: length_js)
qed




text \<open>
  The body that never arrives: with the status a success and \<open>response.json()\<close> pending,
  no timer is left and the promise of the orchestrator stays pending.
\<close>

lemma stalled_body_pending:
  assumes "configured env" and "ok st"
  shows "settled (generateConventionalCommit tb env (Responded st None) rawMessage d) = None"
  using assms by (simp add: generate_settled try_block_def)



lemma generate_accept:
  assumes "configured env" and "ok st"
    and "get_member data (js ''title'') = Inr t" and "truthy t"
    and "get_member data (js ''body'') = Inr b" and "truthy b"
  shows "settled (generateConventionalCommit tb env (Responded st (Some (Inr data))) rawMessage d)
           = Some (Inr \<lparr> title = t, body = b \<rparr>)"
  using assms by (simp add: generate_settled try_block_accept)

lemma generate_reject_body:
  assumes "get_member data (js ''body'') = Inr b" and "\<not> truthy b"
  shows "settled (generateConventionalCommit tb env (Responded st (Some (Inr data))) rawMessage d)
           = Some (Inr (as_js (fallbackCommitGeneration tb rawMessage d)))"
  using assms
  by (simp add: generate_settled try_block_def split: sum.splits)

lemma member_title: "get_member (JObj [(js ''title'', t), (js ''body'', b)]) (js ''title'') = Inr t"
  by (simp add: js_def)

lemma member_body: "get_member (JObj [(js ''title'', t), (js ''body'', b)]) (js ''body'') = Inr b"
  by (simp add: js_def)


text \<open>
  C4, as stated, fails: a remote title of 73 code units with a body comes back unchanged,
  and not the fallback's result.
\<close>

theorem long_remote_title_surfaced:
  "settled (generateConventionalCommit no_tables
              \<lparr> apiUrl = Some (js ''https://lingo.example/v1''), apiKey = Some (js ''k'') \<rparr>
              (Responded 200 (Some (Inr (JObj [(js ''title'', JStr (replicate 73 97)),
                                               (js ''body'', JStr (js ''why''))]))))
              (js ''update'') (js ''+x''))
     = Some (Inr \<lparr> title = JStr (replicate 73 97), body = JStr (js ''why'') \<rparr>)
   \<and> length (replicate 73 (97 :: code_unit)) > 72
   \<and> settled (generateConventionalCommit no_tables
              \<lparr> apiUrl = Some (js ''https://lingo.example/v1''), apiKey = Some (js ''k'') \<rparr>
              (Responded 200 (Some (Inr (JObj [(js ''title'', JStr (replicate 73 97)),
                                               (js ''body'', JStr (js ''why''))]))))
              (js ''update'') (js ''+x''))
     \<noteq> Some (Inr (as_js (fallbackCommitGeneration no_tables (js ''update'') (js ''+x''))))"
proof -
  let ?env = "\<lparr> apiUrl = Some (js ''https://lingo.example/v1''), apiKey = Some (js ''k'') \<rparr>"
  let ?data = "JObj [(js ''title'', JStr (replicate 73 97)), (js ''body'', JStr (js ''why''))]"
  have g: "settled (generateConventionalCommit no_tables ?env (Responded 200 (Some (Inr ?data)))
             (js ''update'') (js ''+x''))
             = Some (Inr \<lparr> title = JStr (replicate 73 97), body = JStr (js ''why'') \<rparr>)"
    by (rule generate_accept [OF _ _ member_title _ member_body])
       (simp_all add: configured_def unset_def ok_def js_def)
  have "length (title (fallbackCommitGeneration no_tables (js ''update'') (js ''+x''))) \<le> 70"
    by (rule fallback_title_short)
  then have "title (fallbackCommitGeneration no_tables (js ''update'') (js ''+x''))
               \<noteq> replicate 73 97"
    by auto
  then have n: "Some (Inr \<lparr> title = JStr (replicate 73 97), body = JStr (js ''why'') \<rparr>)
               \<noteq> (Some (Inr (as_js (fallbackCommitGeneration no_tables (js ''update'') (js ''+x''))))
                    :: jsval commit promise option)"
    by (auto simp: as_js_def)
  have l: "length (replicate 73 (97 :: code_unit)) > 72"
    by simp
  show ?thesis
    using n unfolding g by (intro conjI refl l)
qed

text \<open>
  C4, amended. The remote candidate is tested for a truthy title and a truthy body and for
  nothing else; the length of its title is not looked at. Every successful response with a
  non-empty title string of any length and a truthy body is returned as it is, and when
  the title is longer than 72 code units the result is not the fallback's.
\<close>

theorem remote_title_length_unchecked:
  assumes "configured env" and "ok st"
    and "get_member data (js ''title'') = Inr (JStr t)" and "t \<noteq> []"
    and "get_member data (js ''body'') = Inr b" and "truthy b"
  shows "settled (generateConventionalCommit tb env (Responded st (Some (Inr data))) rawMessage d)
           = Some (Inr \<lparr> title = JStr t, body = b \<rparr>)
         \<and> (length t > 72 \<longrightarrow>
              settled (generateConventionalCommit tb env (Responded st (Some (Inr data)))
                         rawMessage d)
                \<noteq> Some (Inr (as_js (fallbackCommitGeneration tb rawMessage d))))"
proof -
  have g: "settled (generateConventionalCommit tb env (Responded st (Some (Inr data))) rawMessage d)
             = Some (Inr \<lparr> title = JStr t, body = b \<rparr>)"
    using assms by (intro generate_accept) simp_all
  have "t \<noteq> title (fallbackCommitGeneration tb rawMessage d)" if "length t > 72"
    using that fallback_title_short [of tb rawMessage d] by auto
  then show ?thesis
    using g by (auto simp: as_js_def)
qed

theorem remote_title_length_unchecked_witness:
  "configured \<lparr> apiUrl = Some (js ''https://lingo.example/v1''), apiKey = Some (js ''k'') \<rparr>
   \<and> ok 200
   \<and> length (replicate 80 (116 :: code_unit)) > 72
   \<and> settled (generateConventionalCommit no_tables
              \<lparr> apiUrl = Some (js ''https://lingo.example/v1''), apiKey = Some (js ''k'') \<rparr>
              (Responded 200 (Some (Inr (JObj [(js ''title'', JStr (replicate 80 116)),
                                               (js ''body'', JBool True)]))))
              (js ''wip'') [])
     = Some (Inr \<lparr> title = JStr (replicate 80 116), body = JBool True \<rparr>)
   \<and> settled (generateConventionalCommit no_tables
              \<lparr> apiUrl = Some (js ''https://lingo.example/v1''), apiKey = Some (js ''k'') \<rparr>
              (Responded 200 (Some (Inr (JObj [(js ''title'', JStr (replicate 80 116)),
                                               (js ''body'', JBool True)]))))
              (js ''wip'') [])
     \<noteq> Some (Inr (as_js (fallbackCommitGeneration no_tables (js ''wip'') [])))"
proof -
  let ?env = "\<lparr> apiUrl = Some (js ''https://lingo.example/v1''), apiKey = Some (js ''k'') \<rparr>"
  have c: "configured ?env"
    by (simp add: configured_def unset_def js_def)
  have k: "ok 200"
    by (simp add: ok_def)
  have n: "replicate 80 (116 :: code_unit) \<noteq> []"
    by simp
  have l: "length (replicate 80 (116 :: code_unit)) > 72"
    by simp
  have tr: "truthy (JBool True)"
    by simp
  note h = remote_title_length_unchecked [OF c k member_title n member_body tr,
             of no_tables "js ''wip''" "[]"]
  from h have g1:
    "settled (generateConventionalCommit no_tables ?env
        (Responded 200 (Some (Inr (JObj [(js ''title'', JStr (replicate 80 116)),
                                         (js ''body'', JBool True)])))) (js ''wip'') [])
       = Some (Inr \<lparr> title = JStr (replicate 80 116), body = JBool True \<rparr>)"
    by (rule conjunct1)
  from h l have g2:
    "settled (generateConventionalCommit no_tables ?env
        (Responded 200 (Some (Inr (JObj [(js ''title'', JStr (replicate 80 116)),
                                         (js ''body'', JBool True)])))) (js ''wip'') [])
       \<noteq> Some (Inr (as_js (fallbackCommitGeneration no_tables (js ''wip'') [])))"
    by (rule conjunct2 [THEN mp])
  show ?thesis
    by (intro conjI c k l g1 g2)
qed

text \<open>
  C5, as stated, fails: the remote title \<open>wip: try things\<close>, whose type is outside the
  vocabulary, comes back unchanged, and not the fallback's result.
\<close>

theorem foreign_type_prefix_surfaced:
  "settled (generateConventionalCommit no_tables
              \<lparr> apiUrl = Some (js ''https://lingo.example/v1''), apiKey = Some (js ''k'') \<rparr>
              (Responded 200 (Some (Inr (JObj [(js ''title'', JStr (js ''wip: try things'')),
                                               (js ''body'', JStr (js ''why''))]))))
              (js ''update'') (js ''+x''))
     = Some (Inr \<lparr> title = JStr (js ''wip: try things''), body = JStr (js ''why'') \<rparr>)
   \<and> js ''wip'' \<notin> {js ''feat'', js ''fix'', js ''refactor'', js ''docs'', js ''chore'',
                      js ''test'', js ''perf'', js ''style''}
   \<and> settled (generateConventionalCommit no_tables
              \<lparr> apiUrl = Some (js ''https://lingo.example/v1''), apiKey = Some (js ''k'') \<rparr>
              (Responded 200 (Some (Inr (JObj [(js ''title'', JStr (js ''wip: try things'')),
                                               (js ''body'', JStr (js ''why''))]))))
              (js ''update'') (js ''+x''))
     \<noteq> Some (Inr (as_js (fallbackCommitGeneration no_tables (js ''update'') (js ''+x''))))"
proof -
  let ?env = "\<lparr> apiUrl = Some (js ''https://lingo.example/v1''), apiKey = Some (js ''k'') \<rparr>"
  let ?data = "JObj [(js ''title'', JStr (js ''wip: try things'')),
                     (js ''body'', JStr (js ''why''))]"
  have g: "settled (generateConventionalCommit no_tables ?env (Responded 200 (Some (Inr ?data)))
             (js ''update'') (js ''+x''))
             = Some (Inr \<lparr> title = JStr (js ''wip: try things''), body = JStr (js ''why'') \<rparr>)"
    by (rule generate_accept [OF _ _ member_title _ member_body])
       (simp_all add: configured_def unset_def ok_def js_def)
  have "body (fallbackCommitGeneration no_tables (js ''update'') (js ''+x'')) \<noteq> js ''why''"
    by (simp add: fallback_body generateBodyFromDiff_def js_def)
  then have n: "Some (Inr \<lparr> title = JStr (js ''wip: try things''), body = JStr (js ''why'') \<rparr>)
               \<noteq> (Some (Inr (as_js (fallbackCommitGeneration no_tables (js ''update'') (js ''+x''))))
                    :: jsval commit promise option)"
    by (simp add: as_js_def)
  have w: "js ''wip'' \<notin> {js ''feat'', js ''fix'', js ''refactor'', js ''docs'', js ''chore'',
                      js ''test'', js ''perf'', js ''style''}"
    by (simp add: js_def)
  show ?thesis
    using n unfolding g by (intro conjI refl w)
qed

lemma upto_first: "c \<notin> set xs \<Longrightarrow> takeWhile (\<lambda>x. x \<noteq> c) (xs @ c # ys) = xs"
  by (induction xs) auto

lemma js_colon_space: "js '': '' = [58, 32]"
  by (simp add: js_def)

text \<open>
  C5, amended. The title of the remote candidate is not parsed: whatever stands before its
  \<open>: \<close>, in the vocabulary or not, a successful response with that title and a truthy
  body is returned as it is; and when the prefix is none of the classifier's types the
  result is not the fallback's.
\<close>

theorem remote_type_prefix_unchecked:
  assumes "configured env" and "ok st"
    and "get_member data (js ''title'') = Inr (JStr (p @ js '': '' @ rest))"
    and "get_member data (js ''body'') = Inr b" and "truthy b"
  shows "settled (generateConventionalCommit tb env (Responded st (Some (Inr data))) rawMessage d)
           = Some (Inr \<lparr> title = JStr (p @ js '': '' @ rest), body = b \<rparr>)
         \<and> (p \<notin> {js ''feat'', js ''fix'', js ''refactor'', js ''docs'', js ''test'', js ''perf'',
                   js ''style''} \<and>
              58 \<notin> set p \<longrightarrow>
              settled (generateConventionalCommit tb env (Responded st (Some (Inr data)))
                         rawMessage d)
                \<noteq> Some (Inr (as_js (fallbackCommitGeneration tb rawMessage d))))"
proof -
  have g: "settled (generateConventionalCommit tb env (Responded st (Some (Inr data))) rawMessage d)
             = Some (Inr \<lparr> title = JStr (p @ js '': '' @ rest), body = b \<rparr>)"
    using assms by (intro generate_accept) (simp_all add: js_def)
  have "p @ js '': '' @ rest \<noteq> title (fallbackCommitGeneration tb rawMessage d)"
    if p: "p \<notin> {js ''feat'', js ''fix'', js ''refactor'', js ''docs'', js ''test'', js ''perf'',
                  js ''style''}"
      and c: "58 \<notin> set p"
  proof
    let ?ty = "detectCommitType tb (trim rawMessage) d"
    let ?r = "substring0 (toLowerCase tb (trim rawMessage)) 60"
    assume "p @ js '': '' @ rest = title (fallbackCommitGeneration tb rawMessage d)"
    then have eq: "p @ 58 # (32 # rest) = ?ty @ 58 # (32 # ?r)"
      by (simp add: fallback_title js_colon_space)
    have ty: "58 \<notin> set ?ty"
      using detectCommitType_cases [of tb "trim rawMessage" d] by (auto simp: js_def)
    from eq have "takeWhile (\<lambda>x. x \<noteq> 58) (p @ 58 # (32 # rest))
                    = takeWhile (\<lambda>x. x \<noteq> 58) (?ty @ 58 # (32 # ?r))"
      by simp
    with c ty have "p = ?ty"
      by (simp add: upto_first)
    with p detectCommitType_cases [of tb "trim rawMessage" d] show False
      by simp
  qed
  then show ?thesis
    using g by (auto simp: as_js_def)
qed

theorem remote_type_prefix_unchecked_witness:
  "configured \<lparr> apiUrl = Some (js ''https://lingo.example/v1''), apiKey = Some (js ''k'') \<rparr>
   \<and> ok 200
   \<and> settled (generateConventionalCommit no_tables
              \<lparr> apiUrl = Some (js ''https://lingo.example/v1''), apiKey = Some (js ''k'') \<rparr>
              (Responded 200 (Some (Inr (JObj [(js ''title'', JStr (js ''foo'' @ js '': '' @ js ''bar'')),
                                               (js ''body'', JStr (js ''b''))]))))
              (js ''zz'') [])
     = Some (Inr \<lparr> title = JStr (js ''foo'' @ js '': '' @ js ''bar''), body = JStr (js ''b'') \<rparr>)
   \<and> js ''foo'' @ js '': '' @ js ''bar'' = js ''foo: bar''
   \<and> settled (generateConventionalCommit no_tables
              \<lparr> apiUrl = Some (js ''https://lingo.example/v1''), apiKey = Some (js ''k'') \<rparr>
              (Responded 200 (Some (Inr (JObj [(js ''title'', JStr (js ''foo'' @ js '': '' @ js ''bar'')),
                                               (js ''body'', JStr (js ''b''))]))))
              (js ''zz'') [])
     \<noteq> Some (Inr (as_js (fallbackCommitGeneration no_tables (js ''zz'') [])))"
proof -
  let ?env = "\<lparr> apiUrl = Some (js ''https://lingo.example/v1''), apiKey = Some (js ''k'') \<rparr>"
  have c: "configured ?env"
    by (simp add: configured_def unset_def js_def)
  have k: "ok 200"
    by (simp add: ok_def)
  have p: "js ''foo'' \<notin> {js ''feat'', js ''fix'', js ''refactor'', js ''docs'', js ''test'',
                           js ''perf'', js ''style''}
           \<and> 58 \<notin> set (js ''foo'')"
    by (simp add: js_def)
  have tr: "truthy (JStr (js ''b''))"
    by (simp add: js_def)
  have e: "js ''foo'' @ js '': '' @ js ''bar'' = js ''foo: bar''"
    by (simp add: js_def)
  note h = remote_type_prefix_unchecked [where p = "js ''foo''" and rest = "js ''bar''"
             and tb = no_tables and rawMessage = "js ''zz''" and d = "[]",
             OF c k member_title member_body tr]
  from h have g1:
    "settled (generateConventionalCommit no_tables ?env
        (Responded 200 (Some (Inr (JObj [(js ''title'', JStr (js ''foo'' @ js '': '' @ js ''bar'')),
                                         (js ''body'', JStr (js ''b''))])))) (js ''zz'') [])
       = Some (Inr \<lparr> title = JStr (js ''foo'' @ js '': '' @ js ''bar''),
                      body = JStr (js ''b'') \<rparr>)"
    by (rule conjunct1)
  from h p have g2:
    "settled (generateConventionalCommit no_tables ?env
        (Responded 200 (Some (Inr (JObj [(js ''title'', JStr (js ''foo'' @ js '': '' @ js ''bar'')),
                                         (js ''body'', JStr (js ''b''))])))) (js ''zz'') [])
       \<noteq> Some (Inr (as_js (fallbackCommitGeneration no_tables (js ''zz'') [])))"
    by (rule conjunct2 [THEN mp])
  show ?thesis
    by (intro conjI c k g1 e g2)
qed

text \<open>
  C6, as stated, fails: a response with the title \<open>feat: add dashboard\<close> and the empty
  string as body is discarded, and the fallback's result is returned.
\<close>

theorem empty_body_rejected_example:
  "settled (generateConventionalCommit no_tables
              \<lparr> apiUrl = Some (js ''https://lingo.example/v1''), apiKey = Some (js ''k'') \<rparr>
              (Responded 200 (Some (Inr (JObj [(js ''title'', JStr (js ''feat: add dashboard'')),
                                               (js ''body'', JStr [])]))))
              (js ''update'') (js ''+x''))
     = Some (Inr \<lparr> title = JStr (js ''feat: update''),
                    body = JStr (js ''Update implementation'') \<rparr>)
   \<and> settled (generateConventionalCommit no_tables
              \<lparr> apiUrl = Some (js ''https://lingo.example/v1''), apiKey = Some (js ''k'') \<rparr>
              (Responded 200 (Some (Inr (JObj [(js ''title'', JStr (js ''feat: add dashboard'')),
                                               (js ''body'', JStr [])]))))
              (js ''update'') (js ''+x''))
     = Some (Inr (as_js (fallbackCommitGeneration no_tables (js ''update'') (js ''+x''))))"
proof -
  have f: "as_js (fallbackCommitGeneration no_tables (js ''update'') (js ''+x''))
             = \<lparr> title = JStr (js ''feat: update''), body = JStr (js ''Update implementation'') \<rparr>"
    by code_simp
  have g: "settled (generateConventionalCommit no_tables
              \<lparr> apiUrl = Some (js ''https://lingo.example/v1''), apiKey = Some (js ''k'') \<rparr>
              (Responded 200 (Some (Inr (JObj [(js ''title'', JStr (js ''feat: add dashboard'')),
                                               (js ''body'', JStr [])]))))
              (js ''update'') (js ''+x''))
     = Some (Inr (as_js (fallbackCommitGeneration no_tables (js ''update'') (js ''+x''))))"
    by (rule generate_reject_body [OF member_body]) simp
  show ?thesis
    using g unfolding f by (intro conjI)
qed

text \<open>
  C6, amended. The body of the remote candidate must be truthy: a response whose body is
  the empty string is discarded like one without a body, the result is the fallback's, and
  with the title in order the warning names an invalid response format. A response with a
  truthy title and a non-empty body string is returned as it is.
\<close>

theorem remote_body_must_be_truthy:
  "(get_member data (js ''body'') = Inr (JStr []) \<or> get_member data (js ''body'') = Inr JUndefined
      \<longrightarrow>
      settled (generateConventionalCommit tb env (Responded st (Some (Inr data))) rawMessage d)
        = Some (Inr (as_js (fallbackCommitGeneration tb rawMessage d))))
   \<and> (configured env \<and> ok st \<and> member_ok data (js ''title'') \<and>
      (get_member data (js ''body'') = Inr (JStr [])
       \<or> get_member data (js ''body'') = Inr JUndefined) \<longrightarrow>
      trace (generateConventionalCommit tb env (Responded st (Some (Inr data))) rawMessage d) ! 1
        = Warn (js ''Warning: API error (Invalid API response format). Using fallback.''))
   \<and> (configured env \<and> ok st \<and> get_member data (js ''title'') = Inr t \<and> truthy t \<and>
      get_member data (js ''body'') = Inr (JStr s) \<and> s \<noteq> [] \<longrightarrow>
      settled (generateConventionalCommit tb env (Responded st (Some (Inr data))) rawMessage d)
        = Some (Inr \<lparr> title = t, body = JStr s \<rparr>))"
proof -
  let ?g = "generateConventionalCommit tb env (Responded st (Some (Inr data))) rawMessage d"
  have a: "settled ?g = Some (Inr (as_js (fallbackCommitGeneration tb rawMessage d)))"
    if "get_member data (js ''body'') = Inr (JStr [])
        \<or> get_member data (js ''body'') = Inr JUndefined"
    using that generate_reject_body [of data "JStr []"] generate_reject_body [of data JUndefined]
    by auto
  have b: "trace ?g ! 1
             = Warn (js ''Warning: API error (Invalid API response format). Using fallback.'')"
    if "configured env" "ok st" "member_ok data (js ''title'')"
      "get_member data (js ''body'') = Inr (JStr [])
       \<or> get_member data (js ''body'') = Inr JUndefined"
  proof -
    from that(3) obtain t where t: "get_member data (js ''title'') = Inr t" "truthy t"
      by (auto simp: member_ok_def split: sum.splits)
    from that(4) obtain b where b: "get_member data (js ''body'') = Inr b" "\<not> truthy b"
      by auto
    have "try_block (Responded st (Some (Inr data)))
            = Some (Inl (JsError (js ''Error'') (js ''Invalid API response format'')))"
      using that(2) t b by (simp add: try_block_def)
    moreover have "catch_warning (JsError (js ''Error'') (js ''Invalid API response format''))
            = js ''Warning: API error (Invalid API response format). Using fallback.''"
      by (simp add: catch_warning_def js_def)
    ultimately show ?thesis
      using that(1)
      by (simp add: generateConventionalCommit_def configured_def Let_def)
  qed
  have c: "settled ?g = Some (Inr \<lparr> title = t, body = JStr s \<rparr>)"
    if "configured env" "ok st" "get_member data (js ''title'') = Inr t" "truthy t"
      "get_member data (js ''body'') = Inr (JStr s)" "s \<noteq> []"
    using that by (intro generate_accept) simp_all
  from a b c show ?thesis by blast
qed

theorem remote_body_must_be_truthy_witness:
  "get_member (JObj [(js ''title'', JStr (js ''docs: x'')), (js ''body'', JStr [])]) (js ''body'')
     = Inr (JStr [])
   \<and> settled (generateConventionalCommit no_tables
              \<lparr> apiUrl = Some (js ''https://lingo.example/v1''), apiKey = Some (js ''k'') \<rparr>
              (Responded 200 (Some (Inr (JObj [(js ''title'', JStr (js ''docs: x'')),
                                               (js ''body'', JStr [])]))))
              (js ''zz'') [])
     = Some (Inr (as_js (fallbackCommitGeneration no_tables (js ''zz'') [])))
   \<and> configured \<lparr> apiUrl = Some (js ''https://lingo.example/v1''), apiKey = Some (js ''k'') \<rparr>
   \<and> ok 200
   \<and> member_ok (JObj [(js ''title'', JStr (js ''docs: x'')), (js ''body'', JStr [])]) (js ''title'')
   \<and> trace (generateConventionalCommit no_tables
              \<lparr> apiUrl = Some (js ''https://lingo.example/v1''), apiKey = Some (js ''k'') \<rparr>
              (Responded 200 (Some (Inr (JObj [(js ''title'', JStr (js ''docs: x'')),
                                               (js ''body'', JStr [])]))))
              (js ''zz'') []) ! 1
     = Warn (js ''Warning: API error (Invalid API response format). Using fallback.'')
   \<and> settled (generateConventionalCommit no_tables
              \<lparr> apiUrl = Some (js ''https://lingo.example/v1''), apiKey = Some (js ''k'') \<rparr>
              (Responded 200 (Some (Inr (JObj [(js ''title'', JStr (js ''docs: x'')),
                                               (js ''body'', JStr (js ''y''))]))))
              (js ''zz'') [])
     = Some (Inr \<lparr> title = JStr (js ''docs: x''), body = JStr (js ''y'') \<rparr>)"
proof -
  let ?env = "\<lparr> apiUrl = Some (js ''https://lingo.example/v1''), apiKey = Some (js ''k'') \<rparr>"
  let ?d0 = "JObj [(js ''title'', JStr (js ''docs: x'')), (js ''body'', JStr [])]"
  let ?d1 = "JObj [(js ''title'', JStr (js ''docs: x'')), (js ''body'', JStr (js ''y''))]"
  have c: "configured ?env"
    by (simp add: configured_def unset_def js_def)
  have k: "ok 200"
    by (simp add: ok_def)
  have m: "member_ok ?d0 (js ''title'')"
    by (simp add: member_ok_def member_title) (simp add: js_def)
  have b0: "get_member ?d0 (js ''body'') = Inr (JStr [])"
    by (rule member_body)
  have t1: "get_member ?d1 (js ''title'') = Inr (JStr (js ''docs: x''))"
    by (rule member_title)
  have b1: "get_member ?d1 (js ''body'') = Inr (JStr (js ''y''))"
    by (rule member_body)
  have tt: "truthy (JStr (js ''docs: x''))" and ny: "js ''y'' \<noteq> []"
    by (simp_all add: js_def)
  note h0 = remote_body_must_be_truthy [of ?d0 no_tables ?env 200 "js ''zz''" "[]"
              "JStr (js ''docs: x'')" "js ''y''"]
  note h1 = remote_body_must_be_truthy [of ?d1 no_tables ?env 200 "js ''zz''" "[]"
              "JStr (js ''docs: x'')" "js ''y''"]
  from h0 b0 have g1:
    "settled (generateConventionalCommit no_tables ?env (Responded 200 (Some (Inr ?d0)))
       (js ''zz'') [])
       = Some (Inr (as_js (fallbackCommitGeneration no_tables (js ''zz'') [])))"
    by blast
  from h0 b0 c k m have g2:
    "trace (generateConventionalCommit no_tables ?env (Responded 200 (Some (Inr ?d0)))
       (js ''zz'') []) ! 1
       = Warn (js ''Warning: API error (Invalid API response format). Using fallback.'')"
    by blast
  from h1 c k t1 tt b1 ny have g3:
    "settled (generateConventionalCommit no_tables ?env (Responded 200 (Some (Inr ?d1)))
       (js ''zz'') [])
       = Some (Inr \<lparr> title = JStr (js ''docs: x''), body = JStr (js ''y'') \<rparr>)"
    by blast
  show ?thesis
    by (intro conjI b0 g1 c k m g2 g3)
qed

section \<open>Keyword priority and the ratio of the diff\<close>

lemma regex_lines_nonempty: "regex_lines s \<noteq> []"
  by (induction s) (auto split: list.splits)

lemma regex_lines_Cons:
  "regex_lines (c # cs) =
     (if is_line_terminator c then [] # regex_lines cs
      else (c # hd (regex_lines cs)) # tl (regex_lines cs))"
  using regex_lines_nonempty [of cs] by (cases "regex_lines cs") auto

lemma single_sign_simps:
  "single_sign g [] = False"
  "single_sign g [x] = (x = g)"
  "single_sign g (x # y # r) = (x = g \<and> y \<noteq> g)"
  by (simp_all add: single_sign_def)

lemma count_lines_Cons:
  "count_lines g (l # ls) =
     (if single_sign g l \<and> (ls \<noteq> [] \<or> l \<noteq> [g]) then 1 else 0) + count_lines g ls"
  by (cases ls) auto

lemma count_lines_filter:
  "count_lines g ls =
     length (filter (single_sign g) ls) - (if ls \<noteq> [] \<and> last ls = [g] then 1 else 0)"
proof (induction g ls rule: count_lines.induct)
  case (1 g)
  then show ?case by simp
next
  case (2 g l)
  then show ?case by (cases l rule: list.exhaust) (auto simp: single_sign_simps)
next
  case (3 g l k ls)
  have "length (filter (single_sign g) (k # ls)) \<ge> 1" if "last (k # ls) = [g]"
  proof -
    have "last (k # ls) \<in> set (k # ls)" by (rule last_in_set) simp
    with that have "[g] \<in> set (k # ls)"
      by (simp del: last.simps)
    moreover have "single_sign g [g]"
      by (simp add: single_sign_simps)
    ultimately have "[g] \<in> set (filter (single_sign g) (k # ls))"
      unfolding set_filter by blast
    then show ?thesis
      by (metis One_nat_def Suc_leI length_pos_if_in_set)
  qed
  with 3 show ?case by (simp del: filter.simps add: filter.simps(2) [of _ l])
qed

lemma counted_lines: "counted g d = count_lines g (regex_lines d)"
  by (simp add: counted_def line_count_def count_lines_filter regex_lines_nonempty)

lemma count_sign_lines:
  "\<not> is_line_terminator g \<Longrightarrow>
     count_sign g b s = count_lines g (if b then regex_lines s else tl (regex_lines s))"
proof (induction g b s rule: count_sign.induct)
  case (1 g at_start x y r)
  let ?L = "regex_lines (y # r)"
  note g = \<open>\<not> is_line_terminator g\<close>
  show ?case
  proof (cases "at_start \<and> x = g \<and> y \<noteq> g")
    case True
    then have x: "\<not> is_line_terminator x"
      using g by simp
    from True 1 have ih:
      "count_sign g (is_line_terminator y) r
         = count_lines g (if is_line_terminator y then regex_lines r else tl (regex_lines r))"
      by simp
    have cs: "count_sign g at_start (x # y # r) = Suc (count_sign g (is_line_terminator y) r)"
      using True by simp
    show ?thesis
    proof (cases "is_line_terminator y")
      case yt: True
      then have "regex_lines (x # y # r) = [g] # regex_lines r"
        using True x by (simp add: regex_lines_Cons del: regex_lines.simps)
      then show ?thesis
        using True cs ih yt regex_lines_nonempty [of r]
        by (simp add: count_lines_Cons single_sign_simps)
    next
      case yf: False
      then have "regex_lines (x # y # r)
                   = (g # y # hd (regex_lines r)) # tl (regex_lines r)"
        using True x by (simp add: regex_lines_Cons del: regex_lines.simps)
      then show ?thesis
        using True cs ih yf
        by (simp add: count_lines_Cons single_sign_simps)
    qed
  next
    case False
    with 1 have ih:
      "count_sign g (is_line_terminator x) (y # r)
         = count_lines g (if is_line_terminator x then ?L else tl ?L)"
      by simp
    have cs: "count_sign g at_start (x # y # r) = count_sign g (is_line_terminator x) (y # r)"
      using False by auto
    show ?thesis
    proof (cases "is_line_terminator x")
      case xt: True
      then have "regex_lines (x # y # r) = [] # ?L"
        by (simp only: regex_lines_Cons if_True)
      then show ?thesis
        using cs ih xt by (simp add: count_lines_Cons single_sign_simps del: regex_lines.simps)
    next
      case xf: False
      then have rl: "regex_lines (x # y # r) = (x # hd ?L) # tl ?L"
        by (simp only: regex_lines_Cons if_False)
      have no: "\<not> single_sign g (x # hd ?L)" if "at_start"
      proof (cases "x = g")
        case True
        with that False have yg: "y = g" by simp
        with g have "hd ?L = y # hd (regex_lines r)"
          by (simp add: regex_lines_Cons del: regex_lines.simps)
        with True yg show ?thesis
          by (simp add: single_sign_simps)
      next
        case False
        then show ?thesis
          by (cases "hd ?L") (simp_all add: single_sign_simps)
      qed
      show ?thesis
        using cs ih xf rl no
        by (simp add: count_lines_Cons del: regex_lines.simps)
    qed
  qed
qed (simp_all add: single_sign_simps)

lemma additions_counted: "additions d = counted plus_sign d"
  by (simp add: additions_def counted_lines count_sign_lines is_line_terminator_def
        plus_sign_def)

lemma deletions_counted: "deletions d = counted minus_sign d"
  by (simp add: deletions_def counted_lines count_sign_lines is_line_terminator_def
        minus_sign_def)

lemma counted_le: "counted g d \<le> line_count g d"
  by (simp add: counted_def)

lemma counted_ge: "line_count g d \<le> Suc (counted g d)"
  unfolding counted_def by (cases "last (regex_lines d) = [g]") simp_all

lemma first_keyword_Some:
  "first_keyword tb msg = Some ty \<Longrightarrow> detectCommitType tb msg d = ty"
  by (simp add: first_keyword_def priority_table_def detectCommitType_def Let_def
        split: if_splits)

lemma first_keyword_None:
  "first_keyword tb msg = None \<Longrightarrow>
     detectCommitType tb msg d =
       (if includesStr d (js ''test/'') \<or> includesStr d (js ''.test.'')
           \<or> includesStr d (js ''.spec.'')
        then js ''test''
        else if includesStr d (js ''README'') \<or> includesStr d (js ''.md'') then js ''docs''
        else if additions d > deletions d * 2 then js ''feat'' else js ''fix'')"
  by (simp add: first_keyword_def priority_table_def detectCommitType_def Let_def
        split: if_splits)

text \<open>
  C7. The keyword stage tries the categories in the order feat, fix, refactor, docs, test,
  perf, style on the lower-cased message and the first category whose pattern matches
  gives the type, whatever the diff. \<open>added new dashboard\<close> is feat, \<open>fix bug in login\<close>
  is fix, \<open>refactor cleanup module\<close> is refactor, and a message that matches no category
  with a diff that contains \<open>.spec.\<close> is test.
\<close>

theorem keyword_priority:
  "map fst priority_table
     = [js ''feat'', js ''fix'', js ''refactor'', js ''docs'', js ''test'', js ''perf'',
        js ''style'']
   \<and> (first_keyword tb msg = Some ty \<longrightarrow> detectCommitType tb msg d = ty)
   \<and> detectCommitType tb (js ''added new dashboard'') d = js ''feat''
   \<and> detectCommitType tb (js ''fix bug in login'') d = js ''fix''
   \<and> detectCommitType tb (js ''refactor cleanup module'') d = js ''refactor''
   \<and> (first_keyword tb msg = None \<and> includesStr d (js ''.spec.'') \<longrightarrow>
        detectCommitType tb msg d = js ''test'')"
proof -
  have t: "map fst priority_table
             = [js ''feat'', js ''fix'', js ''refactor'', js ''docs'', js ''test'', js ''perf'',
                js ''style'']"
    by (simp add: priority_table_def)
  have a: "first_keyword tb (js ''added new dashboard'') = Some (js ''feat'')"
    by code_simp
  have b: "first_keyword tb (js ''fix bug in login'') = Some (js ''fix'')"
    by code_simp
  have c: "first_keyword tb (js ''refactor cleanup module'') = Some (js ''refactor'')"
    by code_simp
  have n: "detectCommitType tb msg d = js ''test''"
    if "first_keyword tb msg = None" "includesStr d (js ''.spec.'')"
    using that by (simp add: first_keyword_None)
  show ?thesis
    using t first_keyword_Some [OF a, of d] first_keyword_Some [OF b, of d]
      first_keyword_Some [OF c, of d] first_keyword_Some [of tb msg ty d] n
    by blast
qed

theorem keyword_priority_witness:
  "first_keyword no_tables (js ''Add a test for the FIX'') = Some (js ''feat'')
   \<and> detectCommitType no_tables (js ''Add a test for the FIX'') (js ''+x'') = js ''feat''
   \<and> first_keyword no_tables (js ''update parser'') = None
   \<and> includesStr (js ''diff --git a/src/parser.spec.js b/src/parser.spec.js'') (js ''.spec.'')
   \<and> detectCommitType no_tables (js ''update parser'')
         (js ''diff --git a/src/parser.spec.js b/src/parser.spec.js'')
       = js ''test''"
proof -
  have a: "first_keyword no_tables (js ''Add a test for the FIX'') = Some (js ''feat'')"
    by code_simp
  have b: "first_keyword no_tables (js ''update parser'') = None"
    by code_simp
  have c: "includesStr (js ''diff --git a/src/parser.spec.js b/src/parser.spec.js'')
             (js ''.spec.'')"
    by code_simp
  note h1 = keyword_priority [of no_tables "js ''Add a test for the FIX''" "js ''feat''"
              "js ''+x''"]
  note h2 = keyword_priority [of no_tables "js ''update parser''" "js ''feat''"
              "js ''diff --git a/src/parser.spec.js b/src/parser.spec.js''"]
  from h1 a have g1:
    "detectCommitType no_tables (js ''Add a test for the FIX'') (js ''+x'') = js ''feat''"
    by blast
  from h2 b c have g2:
    "detectCommitType no_tables (js ''update parser'')
         (js ''diff --git a/src/parser.spec.js b/src/parser.spec.js'')
       = js ''test''"
    by blast
  show ?thesis
    by (intro conjI a b c g1 g2)
qed

text \<open>
  C8, as stated, fails, for the message \<open>update parser\<close>, without a keyword, in two ways.
  In the diff \<open>+\<close> one line begins with a single \<open>+\<close> and none with \<open>-\<close>, so additions
  exceed twice the deletions, yet the classifier returns fix: the pattern asks for one more
  code unit behind the sign. In the diff of the four code units \<open>x\<close>, U+2028, \<open>+\<close>, \<open>a\<close>
  no line begins with a sign, yet the classifier returns feat: for the pattern a line also
  starts behind U+2028.
\<close>

theorem lone_sign_not_counted:
  "first_keyword no_tables (js ''update parser'') = None
   \<and> \<not> path_signal (js ''+'')
   \<and> spec_count plus_sign (js ''+'') = 1
   \<and> spec_count minus_sign (js ''+'') = 0
   \<and> detectCommitType no_tables (js ''update parser'') (js ''+'') = js ''fix''
   \<and> \<not> path_signal [120, 8232, 43, 97]
   \<and> spec_count plus_sign [120, 8232, 43, 97] = 0
   \<and> spec_count minus_sign [120, 8232, 43, 97] = 0
   \<and> detectCommitType no_tables (js ''update parser'') [120, 8232, 43, 97] = js ''feat''"
proof -
  have a: "first_keyword no_tables (js ''update parser'') = None"
    by code_simp
  have b: "\<not> path_signal (js ''+'')"
    by code_simp
  have c: "spec_count plus_sign (js ''+'') = 1"
    by code_simp
  have d: "spec_count minus_sign (js ''+'') = 0"
    by code_simp
  have e: "detectCommitType no_tables (js ''update parser'') (js ''+'') = js ''fix''"
    by code_simp
  have f: "\<not> path_signal [120, 8232, 43, 97]"
    by code_simp
  have g: "spec_count plus_sign [120, 8232, 43, 97] = 0"
    by code_simp
  have h: "spec_count minus_sign [120, 8232, 43, 97] = 0"
    by code_simp
  have i: "detectCommitType no_tables (js ''update parser'') [120, 8232, 43, 97] = js ''feat''"
    by code_simp
  show ?thesis
    by (intro conjI a b c d e f g h i)
qed

text \<open>
  C8, amended. Without a keyword match and without a path signal the classifier returns
  feat exactly when the additions exceed twice the deletions and fix otherwise, where the
  additions and deletions are the lines, cut at every line terminator (LF, CR, U+2028,
  U+2029), that begin with a single \<open>+\<close> or \<open>-\<close>, a last line that is the sign alone not
  being counted. Ten such lines with \<open>+\<close> and two with \<open>-\<close> give feat, three and three
  give fix, whether or not a last line of the sign alone is counted.
\<close>

theorem diff_ratio_rule:
  "(first_keyword tb msg = None \<and> \<not> path_signal d \<longrightarrow>
      detectCommitType tb msg d
        = (if counted plus_sign d > 2 * counted minus_sign d then js ''feat'' else js ''fix''))
   \<and> additions d = counted plus_sign d
   \<and> deletions d = counted minus_sign d
   \<and> (first_keyword tb msg = None \<and> \<not> path_signal d
       \<and> counted plus_sign d = 10 \<and> counted minus_sign d = 2 \<longrightarrow>
        detectCommitType tb msg d = js ''feat'')
   \<and> (first_keyword tb msg = None \<and> \<not> path_signal d
       \<and> counted plus_sign d = 3 \<and> counted minus_sign d = 3 \<longrightarrow>
        detectCommitType tb msg d = js ''fix'')
   \<and> (first_keyword tb msg = None \<and> \<not> path_signal d
       \<and> line_count plus_sign d = 10 \<and> line_count minus_sign d = 2 \<longrightarrow>
        detectCommitType tb msg d = js ''feat'')
   \<and> (first_keyword tb msg = None \<and> \<not> path_signal d
       \<and> line_count plus_sign d = 3 \<and> line_count minus_sign d = 3 \<longrightarrow>
        detectCommitType tb msg d = js ''fix'')"
proof -
  have rule: "detectCommitType tb msg d
        = (if counted plus_sign d > 2 * counted minus_sign d then js ''feat'' else js ''fix'')"
    if "first_keyword tb msg = None" "\<not> path_signal d"
    using that
    by (simp add: first_keyword_None path_signal_def additions_counted deletions_counted
          mult.commute)
  have ten': "detectCommitType tb msg d = js ''feat''"
    if "first_keyword tb msg = None" "\<not> path_signal d"
      "counted plus_sign d = 10" "counted minus_sign d = 2"
    using rule [OF that(1,2)] that(3,4) by simp
  have three': "detectCommitType tb msg d = js ''fix''"
    if "first_keyword tb msg = None" "\<not> path_signal d"
      "counted plus_sign d = 3" "counted minus_sign d = 3"
    using rule [OF that(1,2)] that(3,4) by simp
  have ten: "detectCommitType tb msg d = js ''feat''"
    if "first_keyword tb msg = None" "\<not> path_signal d"
      "line_count plus_sign d = 10" "line_count minus_sign d = 2"
  proof -
    have "counted plus_sign d \<ge> 9"
      using that(3) counted_ge [of plus_sign d] by simp
    moreover have "counted minus_sign d \<le> 2"
      using that(4) counted_le [of minus_sign d] by simp
    ultimately have "counted plus_sign d > 2 * counted minus_sign d"
      by simp
    with rule [OF that(1,2)] show ?thesis by simp
  qed
  have three: "detectCommitType tb msg d = js ''fix''"
    if "first_keyword tb msg = None" "\<not> path_signal d"
      "line_count plus_sign d = 3" "line_count minus_sign d = 3"
  proof -
    have "counted plus_sign d \<le> 3"
      using that(3) counted_le [of plus_sign d] by simp
    moreover have "counted minus_sign d \<ge> 2"
      using that(4) counted_ge [of minus_sign d] by simp
    ultimately have "\<not> counted plus_sign d > 2 * counted minus_sign d"
      by simp
    with rule [OF that(1,2)] show ?thesis by simp
  qed
  show ?thesis
    using rule ten' three' ten three additions_counted [of d] deletions_counted [of d] by blast
qed

theorem diff_ratio_rule_witness:
  "first_keyword no_tables (js ''update parser'') = None
   \<and> \<not> path_signal (concat (replicate 10 (js ''+a'' @ [10])) @ concat (replicate 2 (js ''-b'' @ [8232])))
   \<and> counted plus_sign (concat (replicate 10 (js ''+a'' @ [10])) @ concat (replicate 2 (js ''-b'' @ [8232]))) = 10
   \<and> counted minus_sign (concat (replicate 10 (js ''+a'' @ [10])) @ concat (replicate 2 (js ''-b'' @ [8232]))) = 2
   \<and> detectCommitType no_tables (js ''update parser'')
        (concat (replicate 10 (js ''+a'' @ [10])) @ concat (replicate 2 (js ''-b'' @ [8232]))) = js ''feat''
   \<and> \<not> path_signal (concat (replicate 3 (js ''+a'' @ [10])) @ concat (replicate 2 (js ''-b'' @ [10])) @ js ''-'')
   \<and> line_count plus_sign (concat (replicate 3 (js ''+a'' @ [10])) @ concat (replicate 2 (js ''-b'' @ [10])) @ js ''-'') = 3
   \<and> line_count minus_sign (concat (replicate 3 (js ''+a'' @ [10])) @ concat (replicate 2 (js ''-b'' @ [10])) @ js ''-'') = 3
   \<and> detectCommitType no_tables (js ''update parser'')
        (concat (replicate 3 (js ''+a'' @ [10])) @ concat (replicate 2 (js ''-b'' @ [10])) @ js ''-'') = js ''fix''"
proof -
  let ?D = "concat (replicate 10 (js ''+a'' @ [10])) @ concat (replicate 2 (js ''-b'' @ [8232]))"
  let ?E = "concat (replicate 3 (js ''+a'' @ [10])) @ concat (replicate 2 (js ''-b'' @ [10])) @ js ''-''"
  have k: "first_keyword no_tables (js ''update parser'') = None"
    by code_simp
  have p1: "\<not> path_signal ?D"
    by code_simp
  have a1: "counted plus_sign ?D = 10"
    by code_simp
  have d1: "counted minus_sign ?D = 2"
    by code_simp
  have p2: "\<not> path_signal ?E"
    by code_simp
  have a2: "line_count plus_sign ?E = 3"
    by code_simp
  have d2: "line_count minus_sign ?E = 3"
    by code_simp
  from diff_ratio_rule [of no_tables "js ''update parser''" ?D] k p1 a1 d1
  have g1: "detectCommitType no_tables (js ''update parser'') ?D = js ''feat''"
    by blast
  from diff_ratio_rule [of no_tables "js ''update parser''" ?E] k p2 a2 d2
  have g2: "detectCommitType no_tables (js ''update parser'') ?E = js ''fix''"
    by blast
  show ?thesis
    by (intro conjI k p1 a1 d1 g1 p2 a2 d2 g2)
qed

section \<open>Properties of the confirmation flow\<close>

lemma commits_cancelled: "commits cancelled = 0"
  by (simp add: commits_def cancelled_def is_commit_def)

lemma commits_caught: "commits (caught m) = 0"
  by (simp add: commits_def caught_def is_commit_def)

lemma commits_commit_step: "commits (commit_step g t b) = 1"
  by (simp add: commits_def commit_step_def caught_def is_commit_def split: option.splits)

lemma commits_confirm:
  "commits (confirm lib result u g) =
     (if choice u = Some Accept
         \<or> (choice u = Some Edit
             \<and> answered (text_prompt lib (title_prompt result) (title_lines u))
             \<and> answered (text_prompt lib (body_prompt result) (body_lines u)))
      then 1 else 0)"
proof (cases "choice u")
  case None
  then show ?thesis by (simp add: confirm_def commits_cancelled)
next
  case (Some a)
  then show ?thesis
    by (cases a)
       (simp_all add: confirm_def commits_cancelled commits_caught commits_commit_step
          answered_def split: prompt_result.splits)
qed

text \<open>
  C3. A run of the confirmation flow calls the commit operation at most once, and only when
  the user chose Accept or chose Edit and both prompts gave an answer; choosing Cancel or
  cancelling the select prompt, and a title prompt or a body prompt that is cancelled (or
  throws), give no call. After Accept the one call carries the generated title and body.
\<close>

theorem commit_at_most_once:
  "commits (confirm lib result u g) \<le> 1
   \<and> (commits (confirm lib result u g) = 1 \<longrightarrow>
        choice u = Some Accept
        \<or> (choice u = Some Edit
            \<and> answered (text_prompt lib (title_prompt result) (title_lines u))
            \<and> answered (text_prompt lib (body_prompt result) (body_lines u))))
   \<and> (choice u = Some Cancel \<or> choice u = None \<longrightarrow> commits (confirm lib result u g) = 0)
   \<and> (choice u = Some Edit \<and>
        (text_prompt lib (title_prompt result) (title_lines u) = Cancelled
         \<or> text_prompt lib (body_prompt result) (body_lines u) = Cancelled) \<longrightarrow>
        commits (confirm lib result u g) = 0)
   \<and> (choice u = Some Edit \<and>
        (\<not> answered (text_prompt lib (title_prompt result) (title_lines u))
         \<or> \<not> answered (text_prompt lib (body_prompt result) (body_lines u))) \<longrightarrow>
        commits (confirm lib result u g) = 0)
   \<and> (choice u = Some Accept \<longrightarrow>
        filter is_commit (confirm lib result u g) = [Commit (title result) (body result)])"
proof -
  have acc: "filter is_commit (confirm lib result u g) = [Commit (title result) (body result)]"
    if "choice u = Some Accept"
    using that
    by (simp add: confirm_def commit_step_def caught_def is_commit_def split: option.splits)
  have c: "\<not> answered Cancelled"
    by (simp add: answered_def)
  show ?thesis
    using acc c by (auto simp: commits_confirm)
qed

theorem commit_at_most_once_witness:
  "commits (confirm throwing_prompt \<lparr> title = JStr (js ''fix: a''), body = JStr (js ''b'') \<rparr>
              \<lparr> choice = Some Accept, title_lines = [], body_lines = [] \<rparr> None) = 1
   \<and> commits (confirm throwing_prompt \<lparr> title = JStr (js ''fix: a''), body = JStr (js ''b'') \<rparr>
              \<lparr> choice = Some Cancel, title_lines = [], body_lines = [] \<rparr> None) = 0
   \<and> text_prompt throwing_prompt
        (body_prompt \<lparr> title = JStr (js ''fix: a''), body = JStr (js ''b'') \<rparr>) [] = Cancelled
   \<and> commits (confirm throwing_prompt \<lparr> title = JStr (js ''fix: a''), body = JStr (js ''b'') \<rparr>
              \<lparr> choice = Some Edit, title_lines = [js ''fix: c''], body_lines = [] \<rparr> None) = 0"
proof -
  let ?r = "\<lparr> title = JStr (js ''fix: a''), body = JStr (js ''b'') \<rparr>"
  let ?acc = "\<lparr> choice = Some Accept, title_lines = [], body_lines = [] \<rparr>"
  let ?can = "\<lparr> choice = Some Cancel, title_lines = [], body_lines = [] \<rparr>"
  let ?ed = "\<lparr> choice = Some Edit, title_lines = [js ''fix: c''], body_lines = [] \<rparr>"
  have a: "commits (confirm throwing_prompt ?r ?acc None) = 1"
    by (simp add: confirm_def commits_commit_step)
  have p: "text_prompt throwing_prompt (body_prompt ?r) [] = Cancelled"
    by (simp add: text_prompt_def body_prompt_def is_text_def)
  note h2 = commit_at_most_once [of throwing_prompt ?r ?can None]
  note h3 = commit_at_most_once [of throwing_prompt ?r ?ed None]
  note h1 = commit_at_most_once [of throwing_prompt ?r ?acc None]
  from h1 have "commits (confirm throwing_prompt ?r ?acc None) \<le> 1"
    by (rule conjunct1)
  from h2 have g2: "commits (confirm throwing_prompt ?r ?can None) = 0"
    by simp
  from h3 p have g3: "commits (confirm throwing_prompt ?r ?ed None) = 0"
    by simp
  show ?thesis
    by (intro conjI a g2 p g3)
qed

lemma title_validate_None: "title_validate v = None \<longleftrightarrow> v \<noteq> [] \<and> length v \<le> 72"
  by (simp add: title_validate_def)

lemma typed_title_prompt:
  "typed_prompt (title_prompt result) ls = Answered t \<Longrightarrow>
     \<exists>v \<in> set ls. t = JStr v \<and> v \<noteq> [] \<and> length v \<le> 72"
proof (induction ls)
  case Nil
  then show ?case by simp
next
  case (Cons v ls)
  show ?case
  proof (cases "title_validate v")
    case None
    then have "v \<noteq> []" "length v \<le> 72"
      by (simp_all add: title_validate_None)
    moreover from None Cons.prems have "t = JStr v"
      using \<open>v \<noteq> []\<close> by (simp add: problem_def title_prompt_def)
    ultimately show ?thesis by simp
  next
    case (Some m)
    with Cons show ?thesis
      by (simp add: problem_def title_prompt_def)
  qed
qed

lemma text_prompt_title:
  "is_text (title result) \<Longrightarrow>
     text_prompt lib (title_prompt result) ls = typed_prompt (title_prompt result) ls"
  by (simp add: text_prompt_def title_prompt_def)

lemma text_prompt_body:
  "is_text (body result) \<Longrightarrow>
     text_prompt lib (body_prompt result) ls = typed_prompt (body_prompt result) ls"
  by (simp add: text_prompt_def body_prompt_def)

text \<open>
  C9, as stated, fails: for a title of 73 code units the validator returns a message, as it
  does for the empty title, so the prompt does not close with that title and nothing is
  committed when the user enters no other.
\<close>

theorem long_title_blocked:
  "title_validate (replicate 73 97) = Some (js ''Title should be under 72 characters'')
   \<and> title_validate [] = Some (js ''Title is required'')
   \<and> text_prompt throwing_prompt
        (title_prompt \<lparr> title = JStr (js ''fix: a''), body = JStr (js ''b'') \<rparr>)
        [replicate 73 97] = Cancelled
   \<and> commits (confirm throwing_prompt \<lparr> title = JStr (js ''fix: a''), body = JStr (js ''b'') \<rparr>
        \<lparr> choice = Some Edit, title_lines = [replicate 73 97], body_lines = [js ''b''] \<rparr>
        None) = 0"
proof -
  let ?r = "\<lparr> title = JStr (js ''fix: a''), body = JStr (js ''b'') \<rparr>"
  have v: "title_validate (replicate 73 97) = Some (js ''Title should be under 72 characters'')"
    by (simp add: title_validate_def)
  have e: "title_validate [] = Some (js ''Title is required'')"
    by (simp add: title_validate_def)
  have t: "is_text (title ?r)"
    by (simp add: is_text_def)
  have p: "text_prompt throwing_prompt (title_prompt ?r) [replicate 73 97] = Cancelled"
    unfolding text_prompt_title [OF t] using v by (simp add: problem_def title_prompt_def)
  have c: "commits (confirm throwing_prompt ?r
        \<lparr> choice = Some Edit, title_lines = [replicate 73 97], body_lines = [js ''b''] \<rparr>
        None) = 0"
    using p by (simp add: confirm_def commits_cancelled)
  show ?thesis
    by (intro conjI v e p c)
qed

text \<open>
  C9, amended. The validator of the title prompt accepts exactly the non-empty titles of at
  most 72 code units; for a candidate whose title is a string a longer title is refused
  like an empty one, the prompt goes on to the next line entered, and a title the prompt
  returns is one of the lines entered, non-empty and at most 72 code units long. The body
  prompt has no validator and has the candidate's body as default value; for a candidate
  whose body is a string it closes with the first line entered, or with that default for
  an empty line.
\<close>

theorem edit_prompts_validation:
  "(title_validate v = None \<longleftrightarrow> v \<noteq> [] \<and> length v \<le> 72)
   \<and> validate (title_prompt result) = Some title_validate
   \<and> (is_text (title result) \<and> length v > 72 \<longrightarrow>
        text_prompt lib (title_prompt result) (v # ls)
          = text_prompt lib (title_prompt result) ls)
   \<and> (is_text (title result) \<and> text_prompt lib (title_prompt result) ls = Answered t \<longrightarrow>
        (\<exists>w \<in> set ls. t = JStr w \<and> w \<noteq> [] \<and> length w \<le> 72))
   \<and> validate (body_prompt result) = None
   \<and> defaultValue (body_prompt result) = body result
   \<and> (is_text (body result) \<longrightarrow>
        text_prompt lib (body_prompt result) (v # ls)
          = Answered (if v = [] then body result else JStr v))"
proof -
  have blocked: "text_prompt lib (title_prompt result) (v # ls)
                   = text_prompt lib (title_prompt result) ls"
    if "is_text (title result)" "length v > 72"
  proof -
    from that(2) have "v \<noteq> []" by auto
    with that(2) have "typed_prompt (title_prompt result) (v # ls)
                         = typed_prompt (title_prompt result) ls"
      by (simp add: problem_def title_prompt_def title_validate_def)
    then show ?thesis
      by (simp only: text_prompt_title [OF that(1)])
  qed
  have ret: "\<exists>w \<in> set ls. t = JStr w \<and> w \<noteq> [] \<and> length w \<le> 72"
    if "is_text (title result)" "text_prompt lib (title_prompt result) ls = Answered t"
    using that typed_title_prompt [of result ls t] by (simp add: text_prompt_title)
  have b: "text_prompt lib (body_prompt result) (v # ls)
             = Answered (if v = [] then body result else JStr v)"
    if "is_text (body result)"
    using that by (simp add: text_prompt_body) (simp add: problem_def body_prompt_def)
  have o: "validate (title_prompt result) = Some title_validate"
    "validate (body_prompt result) = None" "defaultValue (body_prompt result) = body result"
    by (simp_all add: title_prompt_def body_prompt_def)
  from blocked ret b o title_validate_None [of v] show ?thesis
    by blast
qed

theorem edit_prompts_validation_witness:
  "is_text (title \<lparr> title = JStr (js ''fix: a''), body = JStr (js ''b'') \<rparr>)
   \<and> is_text (body \<lparr> title = JStr (js ''fix: a''), body = JStr (js ''b'') \<rparr>)
   \<and> length (replicate 73 (97 :: code_unit)) > 72
   \<and> text_prompt throwing_prompt
        (title_prompt \<lparr> title = JStr (js ''fix: a''), body = JStr (js ''b'') \<rparr>)
        [replicate 73 97, js ''fix: c''] = Answered (JStr (js ''fix: c''))
   \<and> text_prompt throwing_prompt
        (body_prompt \<lparr> title = JStr (js ''fix: a''), body = JStr (js ''b'') \<rparr>) [[]]
        = Answered (JStr (js ''b''))"
proof -
  let ?r = "\<lparr> title = JStr (js ''fix: a''), body = JStr (js ''b'') \<rparr>"
  have it: "is_text (title ?r)" and ib: "is_text (body ?r)"
    by (simp_all add: is_text_def)
  have l: "length (replicate 73 (97 :: code_unit)) > 72"
    by simp
  have n: "text_prompt throwing_prompt (title_prompt ?r) [js ''fix: c'']
             = Answered (JStr (js ''fix: c''))"
    unfolding text_prompt_title [OF it]
    by (simp add: problem_def title_prompt_def title_validate_def js_def)
  note h1 = edit_prompts_validation [of "replicate 73 97" ?r throwing_prompt "[js ''fix: c'']"
              "JStr (js ''fix: c'')"]
  note h2 = edit_prompts_validation [of "[]" ?r throwing_prompt "[]" "JStr (js ''b'')"]
  from h1 it l have "text_prompt throwing_prompt (title_prompt ?r) (replicate 73 97 # [js ''fix: c''])
                    = text_prompt throwing_prompt (title_prompt ?r) [js ''fix: c'']"
    by blast
  with n have g1: "text_prompt throwing_prompt (title_prompt ?r) [replicate 73 97, js ''fix: c'']
                    = Answered (JStr (js ''fix: c''))"
    by simp
  from h2 ib have "text_prompt throwing_prompt (body_prompt ?r) ([] # [])
                     = Answered (if ([] :: jsstring) = [] then body ?r else JStr [])"
    by blast
  then have g2: "text_prompt throwing_prompt (body_prompt ?r) [[]] = Answered (JStr (js ''b''))"
    by simp
  show ?thesis
    by (intro conjI it ib l g1 g2)
qed

end
